theory Spec2Isabelle
  imports Main "HOL-Library.AList"
begin

section \<open>Input functions of bert-multitask-learning (input\_fn.py)\<close>

text \<open>
  The module is glue between three groups of collaborators that live outside it: the
  tokenizer and the preprocessing helpers, the feature encoders and the record
  writer/reader of the same package, and the dataset library. The functions of
  the module are embedded as they are written; each collaborator is a field of a
  record of functions that the embedded function receives as its first argument, and
  each may raise. A dataset is the term of the calls that built it.
\<close>

subsection \<open>Values, errors, configuration\<close>

datatype error =
    IndexError
  | KeyError string
  | Raised string

text \<open>Sequencing of calls that may raise: the first exception is the result.\<close>

definition and_then :: "error + 'a \<Rightarrow> ('a \<Rightarrow> error + 'b) \<Rightarrow> error + 'b" where
  "and_then r f = (case r of Inl e \<Rightarrow> Inl e | Inr v \<Rightarrow> f v)"

text \<open>
  A feature dictionary: a Python dict from feature names to integer sequences, in
  insertion order. Item assignment is \<open>AList.update\<close>.
\<close>

type_synonym feature_dict = "(string \<times> int list) list"

text \<open>The fields of the Params object that the module reads.\<close>

record params =
  vocab_file :: string
  batch_size :: int
  shuffle_buffer :: int
  dynamic_padding :: bool
  bucket_batch_sizes :: "int list"
  bucket_boundaries :: "int list"
  max_seq_len :: int

subsection \<open>Datasets\<close>

text \<open>
  Shapes and types as \<open>from_generator\<close> and \<open>padded_batch\<close> take them: per feature
  name, a list of dimensions (\<open>None\<close> for an unknown one) and a type name.
\<close>

type_synonym output_shapes = "(string \<times> int option list) list"
type_synonym output_types = "(string \<times> string) list"

text \<open>
  One constructor per dataset call of the module. \<open>RecordDataset\<close> stands for what
  the record reader returns for one task. \<open>BucketBySequenceLength\<close> carries the bucket
  boundaries and the bucket batch sizes; its length function is always
  \<open>element_length_func\<close>.
\<close>

datatype dataset =
    RecordDataset string string
  | SampleFromDatasets "dataset list"
  | FromGenerator "feature_dict list" output_types output_shapes
  | Shuffle int dataset
  | Prefetch int dataset
  | BucketBySequenceLength "int list" "int list" dataset
  | Batch int dataset
  | PaddedBatch int output_shapes dataset

text \<open>\<open>tf.data.experimental.AUTOTUNE\<close>.\<close>

definition AUTOTUNE :: int where
  "AUTOTUNE = - 1"

text \<open>
  The transformations applied on top of a combined or generated dataset, outermost
  first, and the dataset they were applied to.
\<close>

datatype transformation =
    TShuffle int
  | TPrefetch int
  | TBucketBySequenceLength "int list" "int list"
  | TBatch int
  | TPaddedBatch int output_shapes

fun transformations :: "dataset \<Rightarrow> transformation list" where
  "transformations (Shuffle n d) = TShuffle n # transformations d"
| "transformations (Prefetch n d) = TPrefetch n # transformations d"
| "transformations (BucketBySequenceLength bs ss d) =
     TBucketBySequenceLength bs ss # transformations d"
| "transformations (Batch n d) = TBatch n # transformations d"
| "transformations (PaddedBatch n sh d) = TPaddedBatch n sh # transformations d"
| "transformations (RecordDataset t m) = []"
| "transformations (SampleFromDatasets ds) = []"
| "transformations (FromGenerator xs ty sh) = []"

fun base_dataset :: "dataset \<Rightarrow> dataset" where
  "base_dataset (Shuffle n d) = base_dataset d"
| "base_dataset (Prefetch n d) = base_dataset d"
| "base_dataset (BucketBySequenceLength bs ss d) = base_dataset d"
| "base_dataset (Batch n d) = base_dataset d"
| "base_dataset (PaddedBatch n sh d) = base_dataset d"
| "base_dataset (RecordDataset t m) = RecordDataset t m"
| "base_dataset (SampleFromDatasets ds) = SampleFromDatasets ds"
| "base_dataset (FromGenerator xs ty sh) = FromGenerator xs ty sh"

text \<open>
  The dataset library checks the arguments of a call and may raise instead of building
  the dataset. It is a collaborator like the others: \<open>tf\<close> gives, for the dataset
  that a call would build, the exception that the call raises instead, if it raises.
\<close>

type_synonym tf_data = "dataset \<Rightarrow> error option"

definition tf_call :: "tf_data \<Rightarrow> dataset \<Rightarrow> error + dataset" where
  "tf_call tf d = (case tf d of Some e \<Rightarrow> Inl e | None \<Rightarrow> Inr d)"

text \<open>
  No call that went into a dataset was refused. The datasets of the record reader are
  taken as they are.
\<close>

fun accepted :: "tf_data \<Rightarrow> dataset \<Rightarrow> bool" where
  "accepted tf (Shuffle n d) = (accepted tf d \<and> tf (Shuffle n d) = None)"
| "accepted tf (Prefetch n d) = (accepted tf d \<and> tf (Prefetch n d) = None)"
| "accepted tf (BucketBySequenceLength bs ss d) =
     (accepted tf d \<and> tf (BucketBySequenceLength bs ss d) = None)"
| "accepted tf (Batch n d) = (accepted tf d \<and> tf (Batch n d) = None)"
| "accepted tf (PaddedBatch n sh d) = (accepted tf d \<and> tf (PaddedBatch n sh d) = None)"
| "accepted tf (SampleFromDatasets ds) = (tf (SampleFromDatasets ds) = None)"
| "accepted tf (FromGenerator xs ty sh) = (tf (FromGenerator xs ty sh) = None)"
| "accepted tf (RecordDataset t m) = True"

text \<open>
  Checks of the library that the calls of this module run into:
  \<open>sample_from_datasets\<close> raises on an empty list of datasets,
  \<open>bucket_by_sequence_length\<close> raises unless there is one more bucket batch size than
  there are bucket boundaries, and a buffer or batch size is converted to a 64-bit
  integer, which raises when it does not fit.
\<close>

definition fits_int64 :: "int \<Rightarrow> bool" where
  "fits_int64 n = (- (2 ^ 63) \<le> n \<and> n < 2 ^ 63)"

fun tf_checks :: "dataset \<Rightarrow> error option" where
  "tf_checks (SampleFromDatasets ds) =
     (if ds = [] then Some (Raised ''ValueError'') else None)"
| "tf_checks (BucketBySequenceLength boundaries batch_sizes d) =
     (if length batch_sizes \<noteq> length boundaries + 1
      then Some (Raised ''ValueError'') else None)"
| "tf_checks (Shuffle n d) = (if fits_int64 n then None else Some (Raised ''OverflowError''))"
| "tf_checks (Prefetch n d) = (if fits_int64 n then None else Some (Raised ''OverflowError''))"
| "tf_checks (Batch n d) = (if fits_int64 n then None else Some (Raised ''OverflowError''))"
| "tf_checks (PaddedBatch n sh d) =
     (if fits_int64 n then None else Some (Raised ''OverflowError''))"
| "tf_checks (FromGenerator xs ty sh) = None"
| "tf_checks (RecordDataset t m) = None"

subsection \<open>element\_length\_func\<close>

text \<open>
  \<open>tf.shape\<close> of a one-dimensional value is the one-element list of its length.
\<close>

definition tf_shape :: "int list \<Rightarrow> int list" where
  "tf_shape xs = [int (length xs)]"

text \<open>
  \<open>return tf.shape(yield_dict['input_ids'])[0]\<close>; subscripting a dict with a key it
  does not have raises \<open>KeyError\<close>.
\<close>

definition element_length_func :: "feature_dict \<Rightarrow> error + int" where
  "element_length_func yield_dict =
     (case map_of yield_dict ''input_ids'' of
        None \<Rightarrow> Inl (KeyError ''input_ids'')
      | Some input_ids \<Rightarrow> Inr (hd (tf_shape input_ids)))"

subsection \<open>train\_eval\_input\_fn\<close>

text \<open>
  The record writer and reader (module \<open>read_write_tfrecord\<close>) work on the persisted
  records, a state of type \<open>'s\<close>. The writer returns the new state; the reader returns
  the items of its dictionary from task to dataset.
\<close>

record 's tfrecord_io =
  write_tfrecord :: "params \<Rightarrow> 's \<Rightarrow> error + 's"
  read_tfrecord :: "params \<Rightarrow> string \<Rightarrow> 's \<Rightarrow> error + (string \<times> dataset) list"

definition train_eval_input_fn ::
  "tf_data \<Rightarrow> 's tfrecord_io \<Rightarrow> params \<Rightarrow> string \<Rightarrow> 's \<Rightarrow> error + ('s \<times> dataset)" where
  "train_eval_input_fn tf io params mode st =
     and_then (write_tfrecord io params st) (\<lambda>st1.
     and_then (read_tfrecord io params mode st1) (\<lambda>dataset_dict.
     and_then (tf_call tf (SampleFromDatasets (map snd dataset_dict))) (\<lambda>dataset0.
     and_then (if mode = ''train''
               then tf_call tf (Shuffle (shuffle_buffer params) dataset0)
               else Inr dataset0) (\<lambda>dataset1.
     and_then (tf_call tf (Prefetch AUTOTUNE dataset1)) (\<lambda>dataset2.
     and_then (if dynamic_padding params
               then tf_call tf (BucketBySequenceLength
                      (bucket_boundaries params) (bucket_batch_sizes params) dataset2)
               else if mode = ''train''
                    then tf_call tf (Batch (batch_size params) dataset2)
                    else tf_call tf (Batch (batch_size params * 2) dataset2)) (\<lambda>dataset3.
       Inr (st1, dataset3)))))))"

text \<open>
  The dataset that lines 49 to 67 build over the datasets of the reader when no call
  is refused.
\<close>

definition train_eval_pipeline :: "params \<Rightarrow> string \<Rightarrow> (string \<times> dataset) list \<Rightarrow> dataset" where
  "train_eval_pipeline params mode dataset_dict =
     (if dynamic_padding params
      then BucketBySequenceLength (bucket_boundaries params) (bucket_batch_sizes params)
      else Batch (if mode = ''train'' then batch_size params else batch_size params * 2))
       (Prefetch AUTOTUNE
         ((if mode = ''train'' then Shuffle (shuffle_buffer params) else (\<lambda>d. d))
           (SampleFromDatasets (map snd dataset_dict))))"

text \<open>The batch size of a dataset whose last transformation is a fixed-size batch.\<close>

fun fixed_batch_size :: "dataset \<Rightarrow> int option" where
  "fixed_batch_size (Batch n d) = Some n"
| "fixed_batch_size d = None"

subsection \<open>Inputs and collaborators of the predict and serving paths\<close>

text \<open>
  An element of the input list: a plain string, a dictionary, or an object of any
  other type (given by its printed form).
\<close>

datatype py_input =
    PyStr string
  | PyDict "(string \<times> string) list"
  | PyObj string

text \<open>The argument \<open>input_file_or_list\<close>: a \<open>str\<close> (a path) or a list.\<close>

datatype 'a file_or_list =
    FilePath string
  | InList "'a list"

text \<open>\<open>isinstance(x, dict) and k not in x\<close>.\<close>

fun dict_without_key :: "string \<Rightarrow> py_input \<Rightarrow> bool" where
  "dict_without_key k (PyDict d) = (k \<notin> set (map fst d))"
| "dict_without_key k (PyStr s) = False"
| "dict_without_key k (PyObj s) = False"

text \<open>
  The keyword arguments that \<open>predict_input_fn\<close> binds with \<open>partial\<close>, and the
  partial object: the function it wraps and the bound keywords.
\<close>

record 'tok encoder_kwargs =
  kw_problem :: string
  kw_label_encoder :: "string option"
  kw_params :: params
  kw_tokenizer :: 'tok
  kw_mode :: string
  kw_problem_type :: string
  kw_is_seq :: bool

datatype encoder =
    CreateBertFeatures
  | CreateMultimodalBertFeatures

record 'tok partial =
  func :: encoder
  kwds :: "'tok encoder_kwargs"

text \<open>A target sequence; the serving path passes \<open>None\<close>.\<close>

type_synonym target = "string list option"

text \<open>
  The functions the module imports, and \<open>open(path, 'r', encoding='utf8').readlines()\<close>.
  \<open>'tok\<close> is the type of tokenizer objects.
\<close>

record 'tok collaborators =
  open_readlines :: "string \<Rightarrow> error + string list"
  FullTokenizer :: "string \<Rightarrow> error + 'tok"
  create_bert_features ::
    "'tok encoder_kwargs \<Rightarrow> py_input list \<Rightarrow> error + feature_dict list"
  create_multimodal_bert_features ::
    "'tok encoder_kwargs \<Rightarrow> py_input list \<Rightarrow> error + feature_dict list"
  infer_shape_and_type_from_dict :: "feature_dict \<Rightarrow> error + (output_shapes \<times> output_types)"
  cluster_alphnum :: "string \<Rightarrow> error + string list"
  tokenize_text_with_seqs ::
    "'tok \<Rightarrow> string list \<Rightarrow> target \<Rightarrow> error + (string list \<times> target)"
  truncate_seq_pair ::
    "string list \<Rightarrow> string list option \<Rightarrow> target \<Rightarrow> int
       \<Rightarrow> error + (string list \<times> string list option \<times> target)"
  add_special_tokens_with_seqs ::
    "string list \<Rightarrow> string list option \<Rightarrow> target
       \<Rightarrow> error + (string list \<times> int list \<times> target)"
  create_mask_and_padding ::
    "string list \<Rightarrow> int list \<Rightarrow> target \<Rightarrow> int
       \<Rightarrow> error + (int list \<times> string list \<times> int list \<times> target)"
  convert_tokens_to_ids :: "'tok \<Rightarrow> string list \<Rightarrow> error + int list"

subsection \<open>predict\_input\_fn\<close>

text \<open>Calling a partial object with \<open>example_list=inputs\<close>.\<close>

definition call_partial ::
  "'tok collaborators \<Rightarrow> 'tok partial \<Rightarrow> py_input list \<Rightarrow> error + feature_dict list" where
  "call_partial c part_fn example_list =
     (case func part_fn of
        CreateBertFeatures \<Rightarrow> create_bert_features c (kwds part_fn) example_list
      | CreateMultimodalBertFeatures \<Rightarrow>
          create_multimodal_bert_features c (kwds part_fn) example_list)"

text \<open>
  Lines 97 to 113: the tokenizer is built, then the encoder is chosen on \<open>inputs[0]\<close>,
  which raises \<open>IndexError\<close> on an empty list.
\<close>

definition predict_part_fn ::
  "'tok collaborators \<Rightarrow> py_input list \<Rightarrow> params \<Rightarrow> string \<Rightarrow> error + 'tok partial" where
  "predict_part_fn c inputs config mode =
     and_then (FullTokenizer c (vocab_file config)) (\<lambda>tokenizer.
       case inputs of
         [] \<Rightarrow> Inl IndexError
       | first # _ \<Rightarrow>
           let kwargs = \<lparr>kw_problem = [], kw_label_encoder = None, kw_params = config,
                         kw_tokenizer = tokenizer, kw_mode = mode,
                         kw_problem_type = ''cls'', kw_is_seq = False\<rparr>
           in if dict_without_key ''a'' first
              then Inr \<lparr>func = CreateMultimodalBertFeatures, kwds = kwargs\<rparr>
              else Inr \<lparr>func = CreateBertFeatures, kwds = kwargs\<rparr>)"

text \<open>
  Lines 116 to 129: the generator over \<open>data_list\<close>, the shapes and types of
  \<open>data_list[0]\<close> (\<open>IndexError\<close> on an empty list), and the padded batch.
\<close>

definition predict_dataset ::
  "tf_data \<Rightarrow> 'tok collaborators \<Rightarrow> params \<Rightarrow> feature_dict list \<Rightarrow> error + dataset" where
  "predict_dataset tf c config data_list =
     (case data_list of
        [] \<Rightarrow> Inl IndexError
      | d0 # _ \<Rightarrow>
          and_then (infer_shape_and_type_from_dict c d0) (\<lambda>(output_shapes, output_type).
          and_then (tf_call tf (FromGenerator data_list output_type output_shapes)) (\<lambda>dataset.
            tf_call tf (PaddedBatch (batch_size config) output_shapes dataset))))"

definition predict_input_fn ::
  "tf_data \<Rightarrow> 'tok collaborators \<Rightarrow> py_input file_or_list \<Rightarrow> params \<Rightarrow> string
     \<Rightarrow> error + dataset" where
  "predict_input_fn tf c input_file_or_list config mode =
     and_then
       (case input_file_or_list of
          FilePath path \<Rightarrow> and_then (open_readlines c path) (\<lambda>lines. Inr (map PyStr lines))
        | InList xs \<Rightarrow> Inr xs) (\<lambda>inputs.
     and_then (predict_part_fn c inputs config mode) (\<lambda>part_fn.
     and_then (call_partial c part_fn inputs) (\<lambda>data_list.
       predict_dataset tf c config data_list)))"

subsection \<open>to\_serving\_input\<close>

text \<open>
  Dictionaries are objects: a heap maps addresses to the current contents of the
  dictionary stored there, and \<open>lim\<close> is the next free address.
\<close>

type_synonym addr = nat

record heap =
  dicts :: "addr \<Rightarrow> feature_dict"
  lim :: addr

definition new_dict :: "heap \<Rightarrow> addr \<times> heap" where
  "new_dict h = (lim h, h\<lparr>dicts := (dicts h)(lim h := []), lim := Suc (lim h)\<rparr>)"

definition set_item :: "addr \<Rightarrow> string \<Rightarrow> int list \<Rightarrow> heap \<Rightarrow> heap" where
  "set_item a k v h = h\<lparr>dicts := (dicts h)(a := AList.update k v (dicts h a))\<rparr>"

text \<open>
  Lines 157 to 170, the preprocessing of one \<open>doc\<close>: the values of \<open>input_ids\<close>,
  \<open>input_mask\<close> and \<open>segment_ids\<close>.
\<close>

definition serving_features ::
  "'tok collaborators \<Rightarrow> 'tok \<Rightarrow> params \<Rightarrow> string
     \<Rightarrow> error + (int list \<times> int list \<times> int list)" where
  "serving_features c tokenizer config doc =
     and_then (cluster_alphnum c doc) (\<lambda>inputs_a.
     and_then (tokenize_text_with_seqs c tokenizer inputs_a None) (\<lambda>(tokens, target).
     and_then (truncate_seq_pair c tokens None target (max_seq_len config))
       (\<lambda>(tokens_a, tokens_b, target).
     and_then (add_special_tokens_with_seqs c tokens_a tokens_b target)
       (\<lambda>(tokens, segment_ids, target).
     and_then (create_mask_and_padding c tokens segment_ids target (max_seq_len config))
       (\<lambda>(input_mask, tokens, segment_ids, target).
     and_then (convert_tokens_to_ids c tokenizer tokens) (\<lambda>input_ids.
       Inr (input_ids, input_mask, segment_ids)))))))"

text \<open>
  A run of the generator, consumed until it stops: each yield with the address yielded
  and the contents of that dictionary at the moment of the yield, the exception that
  ended the run if one did, and the heap at the end.
\<close>

record serving_run =
  yielded :: "(addr \<times> feature_dict) list"
  raised :: "error option"
  heap_after :: heap

text \<open>The loop of lines 156 to 174 over the remaining \<open>inputs\<close>.\<close>

fun serving_loop ::
  "'tok collaborators \<Rightarrow> 'tok \<Rightarrow> params \<Rightarrow> addr \<Rightarrow> string list \<Rightarrow> heap \<Rightarrow> serving_run" where
  "serving_loop c tokenizer config data_dict [] h =
     \<lparr>yielded = [], raised = None, heap_after = h\<rparr>"
| "serving_loop c tokenizer config data_dict (doc # docs) h =
     (case serving_features c tokenizer config doc of
        Inl e \<Rightarrow> \<lparr>yielded = [], raised = Some e, heap_after = h\<rparr>
      | Inr (input_ids, input_mask, segment_ids) \<Rightarrow>
          let h1 = set_item data_dict ''input_ids'' input_ids h;
              h2 = set_item data_dict ''input_mask'' input_mask h1;
              h3 = set_item data_dict ''segment_ids'' segment_ids h2;
              run = serving_loop c tokenizer config data_dict docs h3
          in run\<lparr>yielded := (data_dict, dicts h3 data_dict) # yielded run\<rparr>)"

definition to_serving_input ::
  "'tok collaborators \<Rightarrow> string file_or_list \<Rightarrow> params \<Rightarrow> string \<Rightarrow> 'tok option
     \<Rightarrow> heap \<Rightarrow> serving_run" where
  "to_serving_input c input_file_or_list config mode tokenizer h =
     (case (case input_file_or_list of
              FilePath path \<Rightarrow> open_readlines c path
            | InList xs \<Rightarrow> Inr xs) of
        Inl e \<Rightarrow> \<lparr>yielded = [], raised = Some e, heap_after = h\<rparr>
      | Inr inputs \<Rightarrow>
          (case (case tokenizer of
                   None \<Rightarrow> FullTokenizer c (vocab_file config)
                 | Some t \<Rightarrow> Inr t) of
             Inl e \<Rightarrow> \<lparr>yielded = [], raised = Some e, heap_after = h\<rparr>
           | Inr tokenizer \<Rightarrow>
               (case new_dict h of
                  (data_dict, h0) \<Rightarrow> serving_loop c tokenizer config data_dict inputs h0)))"

text \<open>
  The three feature names of the serving path, and the dictionary that holds exactly
  the three values of one document under them.
\<close>

definition serving_keys :: "string list" where
  "serving_keys = [''input_ids'', ''input_mask'', ''segment_ids'']"

definition feature_dict_of :: "int list \<times> int list \<times> int list \<Rightarrow> feature_dict" where
  "feature_dict_of f =
     (case f of (input_ids, input_mask, segment_ids) \<Rightarrow>
        [(''input_ids'', input_ids), (''input_mask'', input_mask),
         (''segment_ids'', segment_ids)])"

text \<open>The non-empty lines of an input.\<close>

definition non_empty_lines :: "string list \<Rightarrow> string list" where
  "non_empty_lines inputs = filter (\<lambda>doc. doc \<noteq> []) inputs"

text \<open>A heap with no dictionary yet.\<close>

definition empty_heap :: heap where
  "empty_heap = \<lparr>dicts = (\<lambda>a. []), lim = 0\<rparr>"

subsection \<open>Collaborators modelled from the specification\<close>




text \<open>
  Modelled from the spec: what iterating the dataset of the predict pipeline gives.
  The dataset is "an abstract lazy sequence of example records"; the generator of
  \<open>predict_input_fn\<close> yields the records of \<open>data_list\<close> in order, the padded batch
  groups consecutive records, \<open>batch_size\<close> at a time, the last group taking what is
  left, and pads the values of a key with zeros to one length, so that "values for a
  given key share a length after padding"; "shape mismatches among a predict batch
  raise from the batching primitive".

  A record is checked by its signature, the length of the value under each key. The
  generator accepts a record when the declared types and shapes have exactly its keys
  and each value fits the declared shape of its key: one dimension, unknown or equal to
  the length. The padded batch pads the values of a key to the declared dimension, or
  to the longest value of the batch when the dimension is unknown, and raises on a
  value longer than the declared dimension. The values are integers that fit the
  declared type. A batch size below one is refused, and only a padded batch over a
  generator is given a meaning.
\<close>

definition record_signature :: "feature_dict \<Rightarrow> (string \<times> nat) list" where
  "record_signature d = map (\<lambda>(k, v). (k, length v)) d"

fun fits_shape :: "int option list \<Rightarrow> nat \<Rightarrow> bool" where
  "fits_shape [None] n = True"
| "fits_shape [Some m] n = (m = int n)"
| "fits_shape shape n = False"

definition signature_ok ::
  "output_types \<Rightarrow> output_shapes \<Rightarrow> (string \<times> nat) list \<Rightarrow> bool" where
  "signature_ok ty sh sg =
     (set (map fst ty) = set (map fst sg) \<and> set (map fst sh) = set (map fst sg) \<and>
      list_all (\<lambda>(k, n). case map_of sh k of None \<Rightarrow> False | Some shape \<Rightarrow> fits_shape shape n)
        sg)"

definition value_length :: "feature_dict \<Rightarrow> string \<Rightarrow> nat" where
  "value_length d k = (case map_of d k of None \<Rightarrow> 0 | Some v \<Rightarrow> length v)"

definition batch_width :: "feature_dict list \<Rightarrow> string \<Rightarrow> nat" where
  "batch_width batch k = foldr max (map (\<lambda>d. value_length d k) batch) 0"

definition padded_width :: "output_shapes \<Rightarrow> feature_dict list \<Rightarrow> string \<Rightarrow> nat" where
  "padded_width sh batch k =
     (case map_of sh k of
        Some [Some m] \<Rightarrow> nat m
      | _ \<Rightarrow> batch_width batch k)"

definition pad_batch :: "output_shapes \<Rightarrow> feature_dict list \<Rightarrow> error + feature_dict list" where
  "pad_batch sh batch =
     (if list_all (\<lambda>d. list_all (\<lambda>(k, v). length v \<le> padded_width sh batch k) d) batch
      then Inr (map (map (\<lambda>(k, v).
                  (k, v @ replicate (padded_width sh batch k - length v) 0))) batch)
      else Inl (Raised ''InvalidArgumentError''))"

fun pad_batches :: "output_shapes \<Rightarrow> feature_dict list list \<Rightarrow> error + feature_dict list list" where
  "pad_batches sh [] = Inr []"
| "pad_batches sh (batch # batches) =
     and_then (pad_batch sh batch) (\<lambda>padded.
     and_then (pad_batches sh batches) (\<lambda>rest. Inr (padded # rest)))"

function chunks :: "nat \<Rightarrow> 'a list \<Rightarrow> 'a list list" where
  "chunks n xs = (if n = 0 \<or> xs = [] then [] else take n xs # chunks n (drop n xs))"
  by pat_completeness auto
termination
  by (relation "measure (\<lambda>(n, xs). length xs)") auto

declare chunks.simps [simp del]

fun batch_groups :: "dataset \<Rightarrow> error + feature_dict list list" where
  "batch_groups (PaddedBatch n padded_shapes (FromGenerator xs ty sh)) =
     (if n \<le> 0 then Inl (Raised ''InvalidArgumentError'')
      else if \<not> list_all (\<lambda>d. signature_ok ty sh (record_signature d)) xs
      then Inl (Raised ''InvalidArgumentError'')
      else pad_batches padded_shapes (chunks (nat n) xs))"
| "batch_groups d = Inl (Raised ''NotImplementedError'')"

text \<open>
  Modelled from the spec: the Record Writer and Reader (\<open>write_tfrecord\<close> and
  \<open>read_tfrecord\<close>, module \<open>read_write_tfrecord\<close>, which is not part of this module).
  The writer "persists encoded examples to a binary record format per task" and is
  "idempotent -- a no-op if records already exist and are valid"; the reader
  "reconstructs per-task datasets from it". The persisted state maps a task to its
  record file; the configured tasks and the encoding of the examples of a task, which
  may raise, are parameters.
\<close>

record tfrecord_file =
  file_valid :: bool
  file_examples :: "feature_dict list"

type_synonym record_store = "string \<Rightarrow> tfrecord_file option"

definition records_valid :: "record_store \<Rightarrow> string \<Rightarrow> bool" where
  "records_valid st task = (case st task of None \<Rightarrow> False | Some f \<Rightarrow> file_valid f)"

fun record_writer ::
  "(string \<Rightarrow> error + feature_dict list) \<Rightarrow> string list \<Rightarrow> record_store
     \<Rightarrow> error + record_store" where
  "record_writer encode [] st = Inr st"
| "record_writer encode (task # tasks) st =
     (if records_valid st task then record_writer encode tasks st
      else and_then (encode task) (\<lambda>examples.
             record_writer encode tasks
               (st(task \<mapsto> \<lparr>file_valid = True, file_examples = examples\<rparr>))))"

fun record_reader ::
  "string list \<Rightarrow> string \<Rightarrow> record_store \<Rightarrow> error + (string \<times> dataset) list" where
  "record_reader [] mode st = Inr []"
| "record_reader (task # tasks) mode st =
     (if records_valid st task
      then and_then (record_reader tasks mode st)
             (\<lambda>items. Inr ((task, RecordDataset task mode) # items))
      else Inl (Raised ''NotFoundError''))"

definition spec_io ::
  "(string \<Rightarrow> error + feature_dict list) \<Rightarrow> string list \<Rightarrow> record_store tfrecord_io" where
  "spec_io encode tasks =
     \<lparr>write_tfrecord = (\<lambda>params st. record_writer encode tasks st),
      read_tfrecord = (\<lambda>params mode st. record_reader (remdups tasks) mode st)\<rparr>"

subsection \<open>Concrete collaborators for evaluation\<close>

text \<open>
  A record store that already holds the records of every task: writing changes
  nothing, reading gives one dataset per task of the list.
\<close>

definition stored_io :: "string list tfrecord_io" where
  "stored_io =
     \<lparr>write_tfrecord = (\<lambda>params st. Inr st),
      read_tfrecord = (\<lambda>params mode st. Inr (map (\<lambda>t. (t, RecordDataset t mode)) st))\<rparr>"

definition base_params :: params where
  "base_params =
     \<lparr>vocab_file = ''vocab.txt'', batch_size = 32, shuffle_buffer = 1000,
      dynamic_padding = False, bucket_batch_sizes = [64, 32, 16],
      bucket_boundaries = [30, 64], max_seq_len = 8\<rparr>"

text \<open>
  Small collaborators: a tokenizer object is its vocabulary, a document is split into
  its characters, and the id of a token is its length.
\<close>

definition demo_collaborators :: "string list collaborators" where
  "demo_collaborators =
     \<lparr>open_readlines = (\<lambda>path.
        if path = ''test.txt'' then Inr [''ab'' @ [CHR 0x0A], ''c'' @ [CHR 0x0A]]
        else if path = ''empty.txt'' then Inr []
        else Inl (Raised ''FileNotFoundError'')),
      FullTokenizer = (\<lambda>vocab.
        if vocab = ''vocab.txt'' then Inr [''[PAD]'', ''[CLS]'', ''[SEP]'']
        else Inl (Raised ''FileNotFoundError'')),
      create_bert_features = (\<lambda>kwargs example_list.
        Inr (map (\<lambda>x. [(''input_ids'', [101, 102]), (''input_mask'', [1, 1]),
                         (''segment_ids'', [0, 0])]) example_list)),
      create_multimodal_bert_features = (\<lambda>kwargs example_list.
        Inr (map (\<lambda>x. [(''image_input'', [7]), (''image_mask'', [1]),
                         (''image_segment_ids'', [0])]) example_list)),
      infer_shape_and_type_from_dict = (\<lambda>d.
        Inr (map (\<lambda>(k, v). (k, [None])) d, map (\<lambda>(k, v). (k, ''int32'')) d)),
      cluster_alphnum = (\<lambda>doc. Inr (map (\<lambda>ch. [ch]) doc)),
      tokenize_text_with_seqs = (\<lambda>tokenizer inputs_a target. Inr (inputs_a, target)),
      truncate_seq_pair = (\<lambda>tokens_a tokens_b target n.
        Inr (take (nat (n - 2)) tokens_a, tokens_b, target)),
      add_special_tokens_with_seqs = (\<lambda>tokens_a tokens_b target.
        Inr (''[CLS]'' # tokens_a @ [''[SEP]''], replicate (length tokens_a + 2) 0, target)),
      create_mask_and_padding = (\<lambda>tokens segment_ids target n.
        Inr (replicate (length tokens) 1 @ replicate (nat n - length tokens) 0,
             tokens @ replicate (nat n - length tokens) ''[PAD]'',
             segment_ids @ replicate (nat n - length tokens) 0, target)),
      convert_tokens_to_ids = (\<lambda>tokenizer tokens. Inr (map (\<lambda>t. int (length t)) tokens))\<rparr>"

section \<open>Properties\<close>

subsection \<open>Shared facts\<close>

lemma and_then_Inr: "and_then (Inr v) f = f v"
  by (simp add: and_then_def)

lemma and_then_Inl: "and_then (Inl e) f = Inl e"
  by (simp add: and_then_def)

lemma and_then_eq_Inr:
  "and_then r f = Inr y \<longleftrightarrow> (\<exists>v. r = Inr v \<and> f v = Inr y)"
  by (cases r) (simp_all add: and_then_def)

lemma tf_call_eq_Inr: "tf_call tf d = Inr d' \<longleftrightarrow> tf d = None \<and> d' = d"
  by (auto simp: tf_call_def split: option.splits)

lemma train_eval_pipeline_Inr:
  "and_then (tf_call tf (SampleFromDatasets (map snd dataset_dict))) (\<lambda>dataset0.
     and_then (if mode = ''train''
               then tf_call tf (Shuffle (shuffle_buffer params) dataset0)
               else Inr dataset0) (\<lambda>dataset1.
     and_then (tf_call tf (Prefetch AUTOTUNE dataset1)) (\<lambda>dataset2.
     and_then (if dynamic_padding params
               then tf_call tf (BucketBySequenceLength
                      (bucket_boundaries params) (bucket_batch_sizes params) dataset2)
               else if mode = ''train''
                    then tf_call tf (Batch (batch_size params) dataset2)
                    else tf_call tf (Batch (batch_size params * 2) dataset2)) (\<lambda>dataset3.
       Inr (st', dataset3))))) = Inr (st1, ds) \<longleftrightarrow>
   st' = st1 \<and> ds = train_eval_pipeline params mode dataset_dict \<and>
   accepted tf (train_eval_pipeline params mode dataset_dict)"
  by (cases "mode = ''train''"; cases "dynamic_padding params")
    (auto simp: train_eval_pipeline_def and_then_eq_Inr tf_call_eq_Inr)

lemma train_eval_input_fn_Inr:
  "train_eval_input_fn tf io params mode st = Inr (st1, ds) \<longleftrightarrow>
     (\<exists>dataset_dict.
        write_tfrecord io params st = Inr st1 \<and>
        read_tfrecord io params mode st1 = Inr dataset_dict \<and>
        ds = train_eval_pipeline params mode dataset_dict \<and>
        accepted tf (train_eval_pipeline params mode dataset_dict))"
  unfolding train_eval_input_fn_def
  apply (subst and_then_eq_Inr)
  apply (subst and_then_eq_Inr)
  apply (simp only: train_eval_pipeline_Inr)
  apply blast
  done

lemma train_eval_input_fn_returns:
  assumes "write_tfrecord io params st = Inr st1"
    and "read_tfrecord io params mode st1 = Inr dataset_dict"
    and "accepted tf (train_eval_pipeline params mode dataset_dict)"
  shows "train_eval_input_fn tf io params mode st =
    Inr (st1, train_eval_pipeline params mode dataset_dict)"
  unfolding train_eval_input_fn_Inr using assms by blast

text \<open>
  With the checks \<open>tf_checks\<close>, the call raises on a reader that gave no dataset, on
  bucket batch sizes that do not number one more than the boundaries, and on a doubled
  batch size that does not fit 64 bits.
\<close>

lemma train_eval_input_fn_raises:
  "train_eval_input_fn tf_checks stored_io base_params ''eval'' [] =
     Inl (Raised ''ValueError'')"
  "train_eval_input_fn tf_checks stored_io
     (base_params\<lparr>dynamic_padding := True, bucket_batch_sizes := [64, 32]\<rparr>)
     ''eval'' [''ner''] = Inl (Raised ''ValueError'')"
  "train_eval_input_fn tf_checks stored_io (base_params\<lparr>batch_size := 2 ^ 62\<rparr>)
     ''eval'' [''ner''] = Inl (Raised ''OverflowError'')"
  by (simp_all add: train_eval_input_fn_def stored_io_def base_params_def and_then_def
      tf_call_def AUTOTUNE_def fits_int64_def)

subsection \<open>C5\<close>

text \<open>
  C5: for a record whose \<open>input_ids\<close> field is a sequence of length \<open>L\<close>,
  \<open>element_length_func\<close> returns \<open>L\<close>; the result is a function of that field alone
  (two records with the same \<open>input_ids\<close> entry give the same result, and no state is
  read or changed).
\<close>

theorem element_length_func_length:
  "(map_of yield_dict ''input_ids'' = Some input_ids \<and> int (length input_ids) = L
      \<longrightarrow> element_length_func yield_dict = Inr L) \<and>
   (map_of yield_dict ''input_ids'' = map_of other_dict ''input_ids''
      \<longrightarrow> element_length_func yield_dict = element_length_func other_dict)"
  by (auto simp: element_length_func_def tf_shape_def)

theorem element_length_func_length_witness:
  "element_length_func
     [(''input_ids'', [101, 7592, 102, 0]), (''input_mask'', [1, 1, 1, 0])] = Inr 4 \<and>
   element_length_func
     [(''input_ids'', [101, 7592, 102, 0]), (''input_mask'', [1, 1, 1, 0])] =
   element_length_func [(''input_ids'', [101, 7592, 102, 0])]"
  using element_length_func_length
    [of "[(''input_ids'', [101, 7592, 102, 0]), (''input_mask'', [1, 1, 1, 0])]"
        "[101, 7592, 102, 0]" 4 "[(''input_ids'', [101, 7592, 102, 0])]"]
  by auto

subsection \<open>C1\<close>

text \<open>
  C1: with \<open>dynamic_padding = False\<close>, every dataset that \<open>train_eval_input_fn\<close>
  returns has a fixed-size batch as its last step, of \<open>batch_size\<close> in mode \<open>'train'\<close>
  and of twice \<open>batch_size\<close> in every other mode; and it does return one whenever the
  record writer and reader return and the dataset library refuses none of the calls.
\<close>

theorem train_eval_input_fn_batch_size:
  assumes "\<not> dynamic_padding params"
  shows "(train_eval_input_fn tf io params mode st = Inr (st1, ds) \<longrightarrow>
      fixed_batch_size ds =
        Some (if mode = ''train'' then batch_size params else 2 * batch_size params)) \<and>
    (write_tfrecord io params st = Inr st1 \<and>
     read_tfrecord io params mode st1 = Inr dataset_dict \<and>
     accepted tf (train_eval_pipeline params mode dataset_dict) \<longrightarrow>
       (\<exists>ds'. train_eval_input_fn tf io params mode st = Inr (st1, ds') \<and>
          fixed_batch_size ds' =
            Some (if mode = ''train'' then batch_size params else 2 * batch_size params)))"
proof (intro conjI impI)
  assume "train_eval_input_fn tf io params mode st = Inr (st1, ds)"
  then obtain dd where "ds = train_eval_pipeline params mode dd"
    unfolding train_eval_input_fn_Inr by blast
  with assms show "fixed_batch_size ds =
      Some (if mode = ''train'' then batch_size params else 2 * batch_size params)"
    by (simp add: train_eval_pipeline_def)
next
  assume a: "write_tfrecord io params st = Inr st1 \<and>
     read_tfrecord io params mode st1 = Inr dataset_dict \<and>
     accepted tf (train_eval_pipeline params mode dataset_dict)"
  then have "train_eval_input_fn tf io params mode st =
      Inr (st1, train_eval_pipeline params mode dataset_dict)"
    by (simp add: train_eval_input_fn_returns)
  moreover have "fixed_batch_size (train_eval_pipeline params mode dataset_dict) =
      Some (if mode = ''train'' then batch_size params else 2 * batch_size params)"
    using assms by (simp add: train_eval_pipeline_def)
  ultimately show "\<exists>ds'. train_eval_input_fn tf io params mode st = Inr (st1, ds') \<and>
      fixed_batch_size ds' =
        Some (if mode = ''train'' then batch_size params else 2 * batch_size params)"
    by blast
qed

theorem train_eval_input_fn_batch_size_witness:
  "\<not> dynamic_padding base_params \<and> batch_size base_params = 32 \<and>
   (\<exists>ds. train_eval_input_fn tf_checks stored_io base_params ''train'' [''ner'', ''cws''] =
            Inr ([''ner'', ''cws''], ds) \<and> fixed_batch_size ds = Some 32) \<and>
   (\<exists>ds. train_eval_input_fn tf_checks stored_io base_params ''eval'' [''ner'', ''cws''] =
            Inr ([''ner'', ''cws''], ds) \<and> fixed_batch_size ds = Some 64)"
proof -
  have p: "\<not> dynamic_padding base_params" "batch_size base_params = 32"
    by (simp_all add: base_params_def)
  have w: "write_tfrecord stored_io base_params [''ner'', ''cws''] = Inr [''ner'', ''cws'']"
    by (simp add: stored_io_def)
  have r: "read_tfrecord stored_io base_params m [''ner'', ''cws''] =
      Inr [(''ner'', RecordDataset ''ner'' m), (''cws'', RecordDataset ''cws'' m)]" for m
    by (simp add: stored_io_def)
  have a: "accepted tf_checks (train_eval_pipeline base_params m
      [(''ner'', RecordDataset ''ner'' m), (''cws'', RecordDataset ''cws'' m)])" for m
    by (simp add: train_eval_pipeline_def base_params_def AUTOTUNE_def fits_int64_def)
  from train_eval_input_fn_batch_size
      [OF p(1), of tf_checks stored_io "''train''" "[''ner'', ''cws'']" "[''ner'', ''cws'']"
        undefined "[(''ner'', RecordDataset ''ner'' ''train''),
          (''cws'', RecordDataset ''cws'' ''train'')]"]
    w r [of "''train''"] a [of "''train''"] p
  have 1: "\<exists>ds. train_eval_input_fn tf_checks stored_io base_params ''train''
      [''ner'', ''cws''] = Inr ([''ner'', ''cws''], ds) \<and> fixed_batch_size ds = Some 32"
    by simp
  from train_eval_input_fn_batch_size
      [OF p(1), of tf_checks stored_io "''eval''" "[''ner'', ''cws'']" "[''ner'', ''cws'']"
        undefined "[(''ner'', RecordDataset ''ner'' ''eval''),
          (''cws'', RecordDataset ''cws'' ''eval'')]"]
    w r [of "''eval''"] a [of "''eval''"] p
  have 2: "\<exists>ds. train_eval_input_fn tf_checks stored_io base_params ''eval''
      [''ner'', ''cws''] = Inr ([''ner'', ''cws''], ds) \<and> fixed_batch_size ds = Some 64"
    by simp
  from p 1 2 show ?thesis by blast
qed

subsection \<open>C6\<close>

text \<open>
  C6: every dataset that \<open>train_eval_input_fn\<close> returns is the combined dataset (the
  sample over the datasets the reader gave) under, from the inside out, a shuffle with
  buffer \<open>shuffle_buffer\<close> exactly when the mode is \<open>'train'\<close>, then a prefetch with
  \<open>AUTOTUNE\<close> in every mode, then the batching step, which is no shuffle; and it does
  return one whenever the record writer and reader return and the dataset library
  refuses none of the calls.
\<close>

theorem train_eval_input_fn_shuffle_prefetch:
  "(train_eval_input_fn tf io params mode st = Inr (st1, ds) \<longrightarrow>
      (\<exists>dataset_dict batching.
         read_tfrecord io params mode st1 = Inr dataset_dict \<and>
         base_dataset ds = SampleFromDatasets (map snd dataset_dict) \<and>
         transformations ds =
           batching # TPrefetch AUTOTUNE #
             (if mode = ''train'' then [TShuffle (shuffle_buffer params)] else []) \<and>
         (\<forall>n. batching \<noteq> TShuffle n))) \<and>
   (write_tfrecord io params st = Inr st1 \<and>
    read_tfrecord io params mode st1 = Inr dataset_dict \<and>
    accepted tf (train_eval_pipeline params mode dataset_dict) \<longrightarrow>
      (\<exists>ds'. train_eval_input_fn tf io params mode st = Inr (st1, ds')))"
proof (intro conjI impI)
  assume "train_eval_input_fn tf io params mode st = Inr (st1, ds)"
  then obtain dd where r: "read_tfrecord io params mode st1 = Inr dd"
    and ds: "ds = train_eval_pipeline params mode dd"
    unfolding train_eval_input_fn_Inr by blast
  have "base_dataset ds = SampleFromDatasets (map snd dd)"
    by (simp add: ds train_eval_pipeline_def)
  moreover have "\<exists>batching. transformations ds =
      batching # TPrefetch AUTOTUNE #
        (if mode = ''train'' then [TShuffle (shuffle_buffer params)] else []) \<and>
      (\<forall>n. batching \<noteq> TShuffle n)"
    by (simp add: ds train_eval_pipeline_def)
  ultimately show "\<exists>dataset_dict batching.
         read_tfrecord io params mode st1 = Inr dataset_dict \<and>
         base_dataset ds = SampleFromDatasets (map snd dataset_dict) \<and>
         transformations ds =
           batching # TPrefetch AUTOTUNE #
             (if mode = ''train'' then [TShuffle (shuffle_buffer params)] else []) \<and>
         (\<forall>n. batching \<noteq> TShuffle n)"
    using r by blast
next
  assume "write_tfrecord io params st = Inr st1 \<and>
    read_tfrecord io params mode st1 = Inr dataset_dict \<and>
    accepted tf (train_eval_pipeline params mode dataset_dict)"
  then show "\<exists>ds'. train_eval_input_fn tf io params mode st = Inr (st1, ds')"
    by (simp add: train_eval_input_fn_returns)
qed

theorem train_eval_input_fn_shuffle_prefetch_witness:
  "(\<exists>ds batching.
      train_eval_input_fn tf_checks stored_io base_params ''train'' [''ner''] =
        Inr ([''ner''], ds) \<and>
      base_dataset ds = SampleFromDatasets [RecordDataset ''ner'' ''train''] \<and>
      transformations ds = [batching, TPrefetch AUTOTUNE, TShuffle 1000]) \<and>
   (\<exists>ds batching.
      train_eval_input_fn tf_checks stored_io base_params ''eval'' [''ner''] =
        Inr ([''ner''], ds) \<and>
      base_dataset ds = SampleFromDatasets [RecordDataset ''ner'' ''eval''] \<and>
      transformations ds = [batching, TPrefetch AUTOTUNE])"
proof -
  have w: "write_tfrecord stored_io base_params [''ner''] = Inr [''ner'']"
    by (simp add: stored_io_def)
  have r: "read_tfrecord stored_io base_params m [''ner''] = Inr [(''ner'', RecordDataset ''ner'' m)]"
    for m
    by (simp add: stored_io_def)
  have s: "shuffle_buffer base_params = 1000"
    by (simp add: base_params_def)
  have a: "accepted tf_checks
      (train_eval_pipeline base_params m [(''ner'', RecordDataset ''ner'' m)])" for m
    by (simp add: train_eval_pipeline_def base_params_def AUTOTUNE_def fits_int64_def)
  have t: "\<exists>ds. train_eval_input_fn tf_checks stored_io base_params m [''ner''] =
      Inr ([''ner''], ds)" for m
    using train_eval_input_fn_shuffle_prefetch
      [of tf_checks stored_io base_params m "[''ner'']" "[''ner'']" undefined
        "[(''ner'', RecordDataset ''ner'' m)]"] w r [of m] a [of m]
    by simp
  from t [of "''train''"] obtain ds1 where
    1: "train_eval_input_fn tf_checks stored_io base_params ''train'' [''ner''] =
      Inr ([''ner''], ds1)" by blast
  from t [of "''eval''"] obtain ds2 where
    2: "train_eval_input_fn tf_checks stored_io base_params ''eval'' [''ner''] =
      Inr ([''ner''], ds2)" by blast
  from train_eval_input_fn_shuffle_prefetch
      [of tf_checks stored_io base_params "''train''" "[''ner'']" "[''ner'']" ds1] 1 r s
  have 3: "\<exists>batching. base_dataset ds1 = SampleFromDatasets [RecordDataset ''ner'' ''train''] \<and>
      transformations ds1 = [batching, TPrefetch AUTOTUNE, TShuffle 1000]"
    by auto
  from train_eval_input_fn_shuffle_prefetch
      [of tf_checks stored_io base_params "''eval''" "[''ner'']" "[''ner'']" ds2] 2 r s
  have 4: "\<exists>batching. base_dataset ds2 = SampleFromDatasets [RecordDataset ''ner'' ''eval''] \<and>
      transformations ds2 = [batching, TPrefetch AUTOTUNE]"
    by auto
  from 1 2 3 4 show ?thesis by blast
qed

subsection \<open>C2\<close>

lemma predict_part_fn_Cons:
  assumes "FullTokenizer c (vocab_file config) = Inr tokenizer"
  shows "predict_part_fn c (first # rest) config mode =
    Inr \<lparr>func = (if dict_without_key ''a'' first
                 then CreateMultimodalBertFeatures else CreateBertFeatures),
         kwds = \<lparr>kw_problem = [], kw_label_encoder = None, kw_params = config,
                     kw_tokenizer = tokenizer, kw_mode = mode,
                     kw_problem_type = ''cls'', kw_is_seq = False\<rparr>\<rparr>"
  using assms by (simp add: predict_part_fn_def and_then_Inr)

lemma dict_without_key_iff:
  "dict_without_key k x \<longleftrightarrow> (\<exists>d. x = PyDict d \<and> k \<notin> fst ` set d)"
  by (cases x) simp_all

lemma predict_input_fn_InList:
  "predict_input_fn tf c (InList inputs) config mode =
     and_then (predict_part_fn c inputs config mode) (\<lambda>part_fn.
     and_then (call_partial c part_fn inputs) (predict_dataset tf c config))"
  by (simp add: predict_input_fn_def and_then_Inr)

text \<open>
  C2: on a non-empty input list (and a tokenizer that could be built), the partial
  object wraps \<open>create_multimodal_bert_features\<close> when the first element is a dictionary
  without the key \<open>'a'\<close> and \<open>create_bert_features\<close> for every other first element; the
  whole input list is encoded by that one function; and the choice is the same for any
  two lists with the same first element.
\<close>

theorem predict_input_fn_dispatch:
  assumes "FullTokenizer c (vocab_file config) = Inr tokenizer"
  shows "(\<exists>kwargs.
      predict_part_fn c (first # rest) config mode =
        Inr \<lparr>func = (if (\<exists>d. first = PyDict d \<and> ''a'' \<notin> fst ` set d)
                     then CreateMultimodalBertFeatures else CreateBertFeatures),
             kwds = kwargs\<rparr> \<and>
      predict_input_fn tf c (InList (first # rest)) config mode =
        and_then
          ((if (\<exists>d. first = PyDict d \<and> ''a'' \<notin> fst ` set d)
            then create_multimodal_bert_features c else create_bert_features c)
             kwargs (first # rest))
          (predict_dataset tf c config)) \<and>
    predict_part_fn c (first # others) config mode =
      predict_part_fn c (first # rest) config mode"
  unfolding predict_input_fn_InList predict_part_fn_Cons [OF assms]
    dict_without_key_iff [symmetric]
  by (simp add: and_then_Inr call_partial_def)

theorem predict_input_fn_dispatch_witness:
  "(\<exists>kwargs. predict_part_fn demo_collaborators
       [PyDict [(''image'', ''img0'')], PyStr ''x''] base_params ''predict'' =
       Inr \<lparr>func = CreateMultimodalBertFeatures, kwds = kwargs\<rparr>) \<and>
   (\<exists>kwargs. predict_part_fn demo_collaborators
       [PyDict [(''a'', ''text'')], PyDict [(''image'', ''img0'')]] base_params ''predict'' =
       Inr \<lparr>func = CreateBertFeatures, kwds = kwargs\<rparr>) \<and>
   (\<exists>kwargs. predict_part_fn demo_collaborators
       [PyStr ''x'', PyDict [(''image'', ''img0'')]] base_params ''predict'' =
       Inr \<lparr>func = CreateBertFeatures, kwds = kwargs\<rparr>)"
proof -
  have t: "FullTokenizer demo_collaborators (vocab_file base_params) =
      Inr [''[PAD]'', ''[CLS]'', ''[SEP]'']"
    by (simp add: demo_collaborators_def base_params_def)
  from predict_input_fn_dispatch
      [OF t, where first = "PyDict [(''image'', ''img0'')]" and rest = "[PyStr ''x'']"
        and mode = "''predict''" and others = "[]"]
  have 1: "\<exists>kwargs. predict_part_fn demo_collaborators
       [PyDict [(''image'', ''img0'')], PyStr ''x''] base_params ''predict'' =
       Inr \<lparr>func = CreateMultimodalBertFeatures, kwds = kwargs\<rparr>"
    by auto
  from predict_input_fn_dispatch
      [OF t, where first = "PyDict [(''a'', ''text'')]"
        and rest = "[PyDict [(''image'', ''img0'')]]"
        and mode = "''predict''" and others = "[]"]
  have 2: "\<exists>kwargs. predict_part_fn demo_collaborators
       [PyDict [(''a'', ''text'')], PyDict [(''image'', ''img0'')]] base_params ''predict'' =
       Inr \<lparr>func = CreateBertFeatures, kwds = kwargs\<rparr>"
    by auto
  from predict_input_fn_dispatch
      [OF t, where first = "PyStr ''x''" and rest = "[PyDict [(''image'', ''img0'')]]"
        and mode = "''predict''" and others = "[]"]
  have 3: "\<exists>kwargs. predict_part_fn demo_collaborators
       [PyStr ''x'', PyDict [(''image'', ''img0'')]] base_params ''predict'' =
       Inr \<lparr>func = CreateBertFeatures, kwds = kwargs\<rparr>"
    by auto
  from 1 2 3 show ?thesis by blast
qed

subsection \<open>C9\<close>

lemma predict_dataset_Inr:
  "predict_dataset tf c config data_list = Inr ds \<Longrightarrow>
     \<exists>sh ty. ds = PaddedBatch (batch_size config) sh (FromGenerator data_list ty sh)"
  by (auto simp: predict_dataset_def and_then_eq_Inr tf_call_eq_Inr split: list.splits)

lemma predict_dataset_returns:
  assumes "infer_shape_and_type_from_dict c d0 = Inr (sh, ty)"
    and "accepted tf (PaddedBatch (batch_size config) sh (FromGenerator (d0 # others) ty sh))"
  shows "predict_dataset tf c config (d0 # others) =
    Inr (PaddedBatch (batch_size config) sh (FromGenerator (d0 # others) ty sh))"
  using assms by (simp add: predict_dataset_def and_then_Inr tf_call_def)

text \<open>
  C9: a string argument is a path whose lines, as read, are the inputs (each a plain
  string); a list is used as it is. On a non-empty list (and a tokenizer that could be
  built) the encoder that the first element selects is called once, with the bound
  keywords, on the whole list of inputs, and the dataset is built from what that call
  returned: when the call raises, \<open>predict_input_fn\<close> raises the same exception and no
  dataset exists; every dataset that \<open>predict_input_fn\<close> returns is the padded batch
  over a generator of the list that the call returned; and it does return that dataset
  whenever the call returns a non-empty list, the shapes of its first record are
  inferred and the dataset library refuses neither call.
\<close>

theorem predict_input_fn_eager:
  assumes "FullTokenizer c (vocab_file config) = Inr tokenizer"
    and "kwargs = \<lparr>kw_problem = [], kw_label_encoder = None, kw_params = config,
           kw_tokenizer = tokenizer, kw_mode = mode,
           kw_problem_type = ''cls'', kw_is_seq = False\<rparr>"
    and "encode = (if dict_without_key ''a'' first
           then create_multimodal_bert_features c else create_bert_features c)"
  shows "predict_input_fn tf c (FilePath path) config mode =
     and_then (open_readlines c path)
       (\<lambda>lines. predict_input_fn tf c (InList (map PyStr lines)) config mode) \<and>
   predict_input_fn tf c (InList (first # rest)) config mode =
     and_then (encode kwargs (first # rest)) (predict_dataset tf c config) \<and>
   (encode kwargs (first # rest) = Inl e
      \<longrightarrow> predict_input_fn tf c (InList (first # rest)) config mode = Inl e) \<and>
   (predict_input_fn tf c (InList (first # rest)) config mode = Inr ds
      \<longrightarrow> (\<exists>data_list sh ty.
            encode kwargs (first # rest) = Inr data_list \<and>
            ds = PaddedBatch (batch_size config) sh (FromGenerator data_list ty sh))) \<and>
   (encode kwargs (first # rest) = Inr (d0 # others) \<and>
    infer_shape_and_type_from_dict c d0 = Inr (output_shapes, output_type) \<and>
    accepted tf (PaddedBatch (batch_size config) output_shapes
                  (FromGenerator (d0 # others) output_type output_shapes))
      \<longrightarrow> predict_input_fn tf c (InList (first # rest)) config mode =
          Inr (PaddedBatch (batch_size config) output_shapes
                (FromGenerator (d0 # others) output_type output_shapes)))"
proof -
  have lines: "predict_input_fn tf c (FilePath path) config mode =
     and_then (open_readlines c path)
       (\<lambda>lines. predict_input_fn tf c (InList (map PyStr lines)) config mode)"
    by (cases "open_readlines c path")
      (simp_all add: predict_input_fn_def and_then_Inr and_then_Inl)
  have call: "predict_input_fn tf c (InList (first # rest)) config mode =
     and_then (encode kwargs (first # rest)) (predict_dataset tf c config)"
    unfolding predict_input_fn_InList predict_part_fn_Cons [OF assms(1)] assms(2,3)
    by (simp add: and_then_Inr call_partial_def)
  have raises: "predict_input_fn tf c (InList (first # rest)) config mode = Inl e"
    if "encode kwargs (first # rest) = Inl e"
    using that by (simp add: call and_then_Inl)
  have built: "\<exists>data_list sh ty.
            encode kwargs (first # rest) = Inr data_list \<and>
            ds = PaddedBatch (batch_size config) sh (FromGenerator data_list ty sh)"
    if "predict_input_fn tf c (InList (first # rest)) config mode = Inr ds"
  proof -
    from that obtain data_list where dl: "encode kwargs (first # rest) = Inr data_list"
      and pd: "predict_dataset tf c config data_list = Inr ds"
      unfolding call and_then_eq_Inr by blast
    from predict_dataset_Inr [OF pd] dl show ?thesis by blast
  qed
  have returns: "predict_input_fn tf c (InList (first # rest)) config mode =
          Inr (PaddedBatch (batch_size config) output_shapes
                (FromGenerator (d0 # others) output_type output_shapes))"
    if "encode kwargs (first # rest) = Inr (d0 # others) \<and>
      infer_shape_and_type_from_dict c d0 = Inr (output_shapes, output_type) \<and>
      accepted tf (PaddedBatch (batch_size config) output_shapes
                    (FromGenerator (d0 # others) output_type output_shapes))"
    using that by (simp add: call and_then_Inr predict_dataset_returns)
  from lines call raises built returns show ?thesis by blast
qed

theorem predict_input_fn_eager_witness:
  "predict_input_fn tf_checks demo_collaborators (FilePath ''test.txt'') base_params
       ''predict'' =
     predict_input_fn tf_checks demo_collaborators
       (InList [PyStr (''ab'' @ [CHR 0x0A]), PyStr (''c'' @ [CHR 0x0A])])
       base_params ''predict'' \<and>
   predict_input_fn tf_checks demo_collaborators (InList [PyStr ''ab'', PyStr ''c''])
       base_params ''predict'' =
     Inr (PaddedBatch 32
           [(''input_ids'', [None]), (''input_mask'', [None]), (''segment_ids'', [None])]
           (FromGenerator
             [[(''input_ids'', [101, 102]), (''input_mask'', [1, 1]), (''segment_ids'', [0, 0])],
              [(''input_ids'', [101, 102]), (''input_mask'', [1, 1]), (''segment_ids'', [0, 0])]]
             [(''input_ids'', ''int32''), (''input_mask'', ''int32''),
              (''segment_ids'', ''int32'')]
             [(''input_ids'', [None]), (''input_mask'', [None]), (''segment_ids'', [None])]))"
proof -
  let ?kw = "\<lparr>kw_problem = [], kw_label_encoder = None, kw_params = base_params,
       kw_tokenizer = [''[PAD]'', ''[CLS]'', ''[SEP]''], kw_mode = ''predict'',
       kw_problem_type = ''cls'', kw_is_seq = False\<rparr>"
  let ?d = "[(''input_ids'', [101, 102]), (''input_mask'', [1, 1]), (''segment_ids'', [0, 0])]"
  let ?sh = "[(''input_ids'', [None]), (''input_mask'', [None]), (''segment_ids'', [None])]"
  let ?ty = "[(''input_ids'', ''int32''), (''input_mask'', ''int32''),
       (''segment_ids'', ''int32'')]"
  have t: "FullTokenizer demo_collaborators (vocab_file base_params) =
      Inr [''[PAD]'', ''[CLS]'', ''[SEP]'']"
    by (simp add: demo_collaborators_def base_params_def)
  have e: "create_bert_features demo_collaborators =
      (if dict_without_key ''a'' (PyStr ''ab'')
       then create_multimodal_bert_features demo_collaborators
       else create_bert_features demo_collaborators)"
    by simp
  have b: "create_bert_features demo_collaborators ?kw [PyStr ''ab'', PyStr ''c''] =
      Inr (?d # [?d])"
    by (simp add: demo_collaborators_def)
  have i: "infer_shape_and_type_from_dict demo_collaborators ?d = Inr (?sh, ?ty)"
    by (simp add: demo_collaborators_def)
  have l: "open_readlines demo_collaborators ''test.txt'' =
      Inr [''ab'' @ [CHR 0x0A], ''c'' @ [CHR 0x0A]]"
    by (simp add: demo_collaborators_def)
  have bs: "batch_size base_params = 32"
    by (simp add: base_params_def)
  have a: "accepted tf_checks (PaddedBatch (batch_size base_params) ?sh
      (FromGenerator (?d # [?d]) ?ty ?sh))"
    by (simp add: bs fits_int64_def)
  note eager = predict_input_fn_eager
    [OF t refl e, where tf = tf_checks and path = "''test.txt''" and rest = "[PyStr ''c'']"
      and ?d0.0 = ?d and others = "[?d]" and output_shapes = ?sh and output_type = ?ty
      and e = undefined and ds = undefined and mode = "''predict''"]
  have 1: "predict_input_fn tf_checks demo_collaborators (FilePath ''test.txt'') base_params
       ''predict'' =
     predict_input_fn tf_checks demo_collaborators
       (InList [PyStr (''ab'' @ [CHR 0x0A]), PyStr (''c'' @ [CHR 0x0A])])
       base_params ''predict''"
    using eager [THEN conjunct1] l by (simp add: and_then_Inr)
  have 2: "predict_input_fn tf_checks demo_collaborators (InList [PyStr ''ab'', PyStr ''c''])
       base_params ''predict'' =
     Inr (PaddedBatch (batch_size base_params) ?sh (FromGenerator (?d # [?d]) ?ty ?sh))"
    using eager [THEN conjunct2, THEN conjunct2, THEN conjunct2, THEN conjunct2] b i a
    by blast
  from 1 2 show ?thesis by (simp add: bs)
qed

subsection \<open>C10\<close>

text \<open>
  C10: on an empty input list, and on a file that is read as no lines,
  \<open>predict_input_fn\<close> raises: no dataset is returned. The exception is the
  \<open>IndexError\<close> of \<open>inputs[0]\<close> whenever the tokenizer, which is built on the line
  before, could be built; otherwise it is the exception of the tokenizer.
\<close>

theorem predict_input_fn_empty:
  "(\<exists>e. predict_input_fn tf c (InList []) config mode = Inl e) \<and>
   (FullTokenizer c (vocab_file config) = Inr tokenizer
      \<longrightarrow> predict_input_fn tf c (InList []) config mode = Inl IndexError) \<and>
   (open_readlines c path = Inr []
      \<longrightarrow> predict_input_fn tf c (FilePath path) config mode =
          predict_input_fn tf c (InList []) config mode)"
  by (cases "FullTokenizer c (vocab_file config)")
    (simp_all add: predict_input_fn_def predict_part_fn_def and_then_Inr and_then_Inl)

theorem predict_input_fn_empty_witness:
  "predict_input_fn tf_checks demo_collaborators (InList []) base_params ''predict'' = Inl IndexError \<and>
   predict_input_fn tf_checks demo_collaborators (FilePath ''empty.txt'') base_params ''predict'' =
     Inl IndexError"
proof -
  have t: "FullTokenizer demo_collaborators (vocab_file base_params) =
      Inr [''[PAD]'', ''[CLS]'', ''[SEP]'']"
    by (simp add: demo_collaborators_def base_params_def)
  have l: "open_readlines demo_collaborators ''empty.txt'' = Inr []"
    by (simp add: demo_collaborators_def)
  from predict_input_fn_empty
    [of tf_checks demo_collaborators base_params "''predict''" "[''[PAD]'', ''[CLS]'', ''[SEP]'']"
      "''empty.txt''"] t l
  show ?thesis by simp
qed

subsection \<open>The serving generator\<close>

lemma update_serving_keys:
  assumes "map fst d = [] \<or> map fst d = serving_keys"
  shows "AList.update ''segment_ids'' segment_ids
      (AList.update ''input_mask'' input_mask (AList.update ''input_ids'' input_ids d)) =
    feature_dict_of (input_ids, input_mask, segment_ids)"
proof (cases "d = []")
  case True
  then show ?thesis by (simp add: feature_dict_of_def)
next
  case False
  with assms have "map fst d = serving_keys" by simp
  then obtain v1 v2 v3 where
    "d = [(''input_ids'', v1), (''input_mask'', v2), (''segment_ids'', v3)]"
    by (auto simp: serving_keys_def map_eq_Cons_conv)
  then show ?thesis by (simp add: feature_dict_of_def)
qed

lemma map_fst_feature_dict_of: "map fst (feature_dict_of f) = serving_keys"
  by (cases f) (simp add: feature_dict_of_def serving_keys_def)

lemma set_item_serving:
  assumes "map fst (dicts h a) = [] \<or> map fst (dicts h a) = serving_keys"
  shows "set_item a ''segment_ids'' segment_ids
      (set_item a ''input_mask'' input_mask (set_item a ''input_ids'' input_ids h)) =
    h\<lparr>dicts := (dicts h)(a := feature_dict_of (input_ids, input_mask, segment_ids))\<rparr>"
  using update_serving_keys [OF assms] by (simp add: set_item_def)

lemma serving_loop_run:
  assumes "map (serving_features c tok config) docs = map Inr fs"
    and "map fst (dicts h a) = [] \<or> map fst (dicts h a) = serving_keys"
  shows "serving_loop c tok config a docs h =
    \<lparr>yielded = map (\<lambda>f. (a, feature_dict_of f)) fs, raised = None,
     heap_after = (if docs = [] then h
                   else h\<lparr>dicts := (dicts h)(a := feature_dict_of (last fs))\<rparr>)\<rparr>"
  using assms
proof (induction docs arbitrary: fs h)
  case Nil
  then show ?case by simp
next
  case (Cons doc docs)
  from Cons.prems(1) obtain f fs' where fs: "fs = f # fs'"
    and f: "serving_features c tok config doc = Inr f"
    and rest: "map (serving_features c tok config) docs = map Inr fs'"
    by (cases fs) auto
  obtain input_ids input_mask segment_ids where t: "f = (input_ids, input_mask, segment_ids)"
    by (cases f) auto
  let ?h3 = "h\<lparr>dicts := (dicts h)(a := feature_dict_of f)\<rparr>"
  have h3: "set_item a ''segment_ids'' segment_ids
      (set_item a ''input_mask'' input_mask (set_item a ''input_ids'' input_ids h)) = ?h3"
    using set_item_serving [OF Cons.prems(2)] t by simp
  have keys: "map fst (dicts ?h3 a) = [] \<or> map fst (dicts ?h3 a) = serving_keys"
    by (simp add: map_fst_feature_dict_of)
  have len: "length docs = length fs'"
    using rest by (metis length_map)
  have "serving_loop c tok config a (doc # docs) h =
      (serving_loop c tok config a docs ?h3)
        \<lparr>yielded := (a, dicts ?h3 a) # yielded (serving_loop c tok config a docs ?h3)\<rparr>"
    using f t h3 by (simp add: Let_def)
  also have "\<dots> =
      \<lparr>yielded = map (\<lambda>f. (a, feature_dict_of f)) (f # fs'), raised = None,
       heap_after = (if docs = [] then ?h3
                     else ?h3\<lparr>dicts := (dicts ?h3)(a := feature_dict_of (last fs'))\<rparr>)\<rparr>"
    by (simp add: Cons.IH [OF rest keys])
  also have "\<dots> =
      \<lparr>yielded = map (\<lambda>f. (a, feature_dict_of f)) fs, raised = None,
       heap_after = h\<lparr>dicts := (dicts h)(a := feature_dict_of (last fs))\<rparr>\<rparr>"
    using len by (cases "docs = []") (auto simp: fs)
  finally show ?case by simp
qed

lemma to_serving_input_run:
  assumes "(case input_file_or_list of
              FilePath path \<Rightarrow> open_readlines c path | InList xs \<Rightarrow> Inr xs) = Inr inputs"
    and "(case tokenizer of
            None \<Rightarrow> FullTokenizer c (vocab_file config) | Some t \<Rightarrow> Inr t) = Inr tok"
    and "map (serving_features c tok config) inputs = map Inr fs"
  shows "to_serving_input c input_file_or_list config mode tokenizer h =
    \<lparr>yielded = map (\<lambda>f. (lim h, feature_dict_of f)) fs, raised = None,
     heap_after =
       (snd (new_dict h))
         \<lparr>dicts := (dicts (snd (new_dict h)))
            (lim h := (if inputs = [] then [] else feature_dict_of (last fs)))\<rparr>\<rparr>"
proof -
  let ?h0 = "snd (new_dict h)"
  have keys: "map fst (dicts ?h0 (lim h)) = [] \<or> map fst (dicts ?h0 (lim h)) = serving_keys"
    by (simp add: new_dict_def)
  have e: "?h0 = ?h0\<lparr>dicts := (dicts ?h0)(lim h := [])\<rparr>"
    by (simp add: new_dict_def)
  have "to_serving_input c input_file_or_list config mode tokenizer h =
      serving_loop c tok config (lim h) inputs ?h0"
    using assms(1,2) by (simp add: to_serving_input_def new_dict_def)
  also have "\<dots> =
      \<lparr>yielded = map (\<lambda>f. (lim h, feature_dict_of f)) fs, raised = None,
       heap_after = (if inputs = [] then ?h0
                     else ?h0\<lparr>dicts := (dicts ?h0)(lim h := feature_dict_of (last fs))\<rparr>)\<rparr>"
    by (rule serving_loop_run [OF assms(3) keys])
  finally show ?thesis using e by (cases "inputs = []") simp_all
qed

lemma demo_serving_features:
  "serving_features demo_collaborators [''[PAD]'', ''[CLS]'', ''[SEP]''] base_params ''ab'' =
     Inr ([5, 1, 1, 5, 5, 5, 5, 5], [1, 1, 1, 1, 0, 0, 0, 0], [0, 0, 0, 0, 0, 0, 0, 0])"
  "serving_features demo_collaborators [''[PAD]'', ''[CLS]'', ''[SEP]''] base_params ''c'' =
     Inr ([5, 1, 5, 5, 5, 5, 5, 5], [1, 1, 1, 0, 0, 0, 0, 0], [0, 0, 0, 0, 0, 0, 0, 0])"
  by (simp_all add: serving_features_def demo_collaborators_def base_params_def
      and_then_Inr eval_nat_numeral)

subsection \<open>C3\<close>

text \<open>
  C3 (amended): for an input that is a list of lines, or a path whose file could be
  read, and a tokenizer that was given or could be built: when the preprocessing of
  every line returns, the generator ends without an exception after yielding exactly
  one dictionary for each input line, empty or not, in order (the loop has no test on
  the line), the dictionary yielded for a line holds the features of that line, and
  every yielded dictionary has exactly the keys \<open>input_ids\<close>, \<open>input_mask\<close> and
  \<open>segment_ids\<close>.
\<close>

theorem to_serving_input_one_dict_per_line:
  assumes "(case input_file_or_list of
              FilePath path \<Rightarrow> open_readlines c path | InList xs \<Rightarrow> Inr xs) = Inr inputs"
    and "(case tokenizer of
            None \<Rightarrow> FullTokenizer c (vocab_file config) | Some t \<Rightarrow> Inr t) = Inr tok"
    and "map (serving_features c tok config) inputs = map Inr fs"
  shows "raised (to_serving_input c input_file_or_list config mode tokenizer h) = None \<and>
    length (yielded (to_serving_input c input_file_or_list config mode tokenizer h)) =
      length inputs \<and>
    map snd (yielded (to_serving_input c input_file_or_list config mode tokenizer h)) =
      map feature_dict_of fs \<and>
    (\<forall>y \<in> set (yielded (to_serving_input c input_file_or_list config mode tokenizer h)).
       map fst (snd y) = [''input_ids'', ''input_mask'', ''segment_ids''] \<and>
       distinct (map fst (snd y)))"
proof -
  have len: "length inputs = length fs"
    using assms(3) by (metis length_map)
  show ?thesis
    unfolding to_serving_input_run [OF assms]
    using len map_fst_feature_dict_of
    by (auto simp: comp_def serving_keys_def)
qed

theorem to_serving_input_one_dict_per_line_witness:
  "raised (to_serving_input demo_collaborators (InList [''ab'', ''c'']) base_params
       ''predict'' None empty_heap) = None \<and>
   map snd (yielded (to_serving_input demo_collaborators (InList [''ab'', ''c''])
       base_params ''predict'' None empty_heap)) =
     [[(''input_ids'', [5, 1, 1, 5, 5, 5, 5, 5]), (''input_mask'', [1, 1, 1, 1, 0, 0, 0, 0]),
       (''segment_ids'', [0, 0, 0, 0, 0, 0, 0, 0])],
      [(''input_ids'', [5, 1, 5, 5, 5, 5, 5, 5]), (''input_mask'', [1, 1, 1, 0, 0, 0, 0, 0]),
       (''segment_ids'', [0, 0, 0, 0, 0, 0, 0, 0])]]"
proof -
  have i: "(case InList [''ab'', ''c''] of
              FilePath path \<Rightarrow> open_readlines demo_collaborators path
            | InList xs \<Rightarrow> Inr xs) = Inr [''ab'', ''c'']"
    by simp
  have t: "(case None of
              None \<Rightarrow> FullTokenizer demo_collaborators (vocab_file base_params)
            | Some t \<Rightarrow> Inr t) = Inr [''[PAD]'', ''[CLS]'', ''[SEP]'']"
    by (simp add: demo_collaborators_def base_params_def)
  have f: "map (serving_features demo_collaborators [''[PAD]'', ''[CLS]'', ''[SEP]'']
        base_params) [''ab'', ''c''] =
      map Inr [([5, 1, 1, 5, 5, 5, 5, 5], [1, 1, 1, 1, 0, 0, 0, 0], [0, 0, 0, 0, 0, 0, 0, 0]),
               ([5, 1, 5, 5, 5, 5, 5, 5], [1, 1, 1, 0, 0, 0, 0, 0], [0, 0, 0, 0, 0, 0, 0, 0])]"
    by (simp add: demo_serving_features)
  from to_serving_input_one_dict_per_line [OF i t f, of "''predict''" empty_heap]
  show ?thesis by (simp add: feature_dict_of_def)
qed

text \<open>
  Counting one dictionary per non-empty line fails: on the list of an empty line, the
  line \<open>ab\<close> and another empty line, the generator yields three dictionaries, and the
  list has one non-empty line.
\<close>

theorem to_serving_input_empty_lines_counterexample:
  "length (yielded (to_serving_input demo_collaborators (InList [[], ''ab'', []])
       base_params ''predict'' None empty_heap)) = 3 \<and>
   length (non_empty_lines [[], ''ab'', []]) = 1 \<and>
   length (yielded (to_serving_input demo_collaborators (InList [[], ''ab'', []])
       base_params ''predict'' None empty_heap)) \<noteq>
     length (non_empty_lines [[], ''ab'', []])"
proof -
  have i: "(case InList [[], ''ab'', []] of
              FilePath path \<Rightarrow> open_readlines demo_collaborators path
            | InList xs \<Rightarrow> Inr xs) = Inr [[], ''ab'', []]"
    by simp
  have t: "(case None of
              None \<Rightarrow> FullTokenizer demo_collaborators (vocab_file base_params)
            | Some t \<Rightarrow> Inr t) = Inr [''[PAD]'', ''[CLS]'', ''[SEP]'']"
    by (simp add: demo_collaborators_def base_params_def)
  have e: "serving_features demo_collaborators [''[PAD]'', ''[CLS]'', ''[SEP]'']
      base_params [] =
      Inr ([5, 5, 5, 5, 5, 5, 5, 5], [1, 1, 0, 0, 0, 0, 0, 0], [0, 0, 0, 0, 0, 0, 0, 0])"
    by (simp add: serving_features_def demo_collaborators_def base_params_def
        and_then_Inr eval_nat_numeral)
  have f: "map (serving_features demo_collaborators [''[PAD]'', ''[CLS]'', ''[SEP]'']
        base_params) [[], ''ab'', []] =
      map Inr [([5, 5, 5, 5, 5, 5, 5, 5], [1, 1, 0, 0, 0, 0, 0, 0], [0, 0, 0, 0, 0, 0, 0, 0]),
               ([5, 1, 1, 5, 5, 5, 5, 5], [1, 1, 1, 1, 0, 0, 0, 0], [0, 0, 0, 0, 0, 0, 0, 0]),
               ([5, 5, 5, 5, 5, 5, 5, 5], [1, 1, 0, 0, 0, 0, 0, 0], [0, 0, 0, 0, 0, 0, 0, 0])]"
    by (simp add: demo_serving_features e)
  show ?thesis
    unfolding to_serving_input_run [OF i t f] by (simp add: non_empty_lines_def)
qed

subsection \<open>C4\<close>

text \<open>
  C4: one dictionary is created before the loop and every yield hands out that same
  object. When the preprocessing of each of the \<open>n\<close> input lines returns, the \<open>n\<close>
  references yielded are all the address of that dictionary, and once the generator is
  exhausted the dictionary read through any of them holds the features of the last
  input line.
\<close>

theorem to_serving_input_shared_dict:
  assumes "(case input_file_or_list of
              FilePath path \<Rightarrow> open_readlines c path | InList xs \<Rightarrow> Inr xs) = Inr inputs"
    and "(case tokenizer of
            None \<Rightarrow> FullTokenizer c (vocab_file config) | Some t \<Rightarrow> Inr t) = Inr tok"
    and "map (serving_features c tok config) inputs = map Inr fs"
  shows "map fst (yielded (to_serving_input c input_file_or_list config mode tokenizer h)) =
      replicate (length inputs) (lim h) \<and>
    (\<forall>y \<in> set (yielded (to_serving_input c input_file_or_list config mode tokenizer h)).
       dicts (heap_after (to_serving_input c input_file_or_list config mode tokenizer h))
         (fst y) = feature_dict_of (last fs))"
proof -
  have len: "length inputs = length fs"
    using assms(3) by (metis length_map)
  show ?thesis
    unfolding to_serving_input_run [OF assms]
    using len by (auto simp: comp_def map_replicate_const)
qed

theorem to_serving_input_shared_dict_witness:
  "map fst (yielded (to_serving_input demo_collaborators (InList [''ab'', ''c''])
       base_params ''predict'' None empty_heap)) = [0, 0] \<and>
   dicts (heap_after (to_serving_input demo_collaborators (InList [''ab'', ''c''])
       base_params ''predict'' None empty_heap)) 0 =
     [(''input_ids'', [5, 1, 5, 5, 5, 5, 5, 5]), (''input_mask'', [1, 1, 1, 0, 0, 0, 0, 0]),
      (''segment_ids'', [0, 0, 0, 0, 0, 0, 0, 0])] \<and>
   map snd (yielded (to_serving_input demo_collaborators (InList [''ab'', ''c''])
       base_params ''predict'' None empty_heap)) \<noteq>
     [dicts (heap_after (to_serving_input demo_collaborators (InList [''ab'', ''c''])
        base_params ''predict'' None empty_heap)) 0,
      dicts (heap_after (to_serving_input demo_collaborators (InList [''ab'', ''c''])
        base_params ''predict'' None empty_heap)) 0]"
proof -
  let ?run = "to_serving_input demo_collaborators (InList [''ab'', ''c''])
       base_params ''predict'' None empty_heap"
  have i: "(case InList [''ab'', ''c''] of
              FilePath path \<Rightarrow> open_readlines demo_collaborators path
            | InList xs \<Rightarrow> Inr xs) = Inr [''ab'', ''c'']"
    by simp
  have t: "(case None of
              None \<Rightarrow> FullTokenizer demo_collaborators (vocab_file base_params)
            | Some t \<Rightarrow> Inr t) = Inr [''[PAD]'', ''[CLS]'', ''[SEP]'']"
    by (simp add: demo_collaborators_def base_params_def)
  have f: "map (serving_features demo_collaborators [''[PAD]'', ''[CLS]'', ''[SEP]'']
        base_params) [''ab'', ''c''] =
      map Inr [([5, 1, 1, 5, 5, 5, 5, 5], [1, 1, 1, 1, 0, 0, 0, 0], [0, 0, 0, 0, 0, 0, 0, 0]),
               ([5, 1, 5, 5, 5, 5, 5, 5], [1, 1, 1, 0, 0, 0, 0, 0], [0, 0, 0, 0, 0, 0, 0, 0])]"
    by (simp add: demo_serving_features)
  have l: "lim empty_heap = 0"
    by (simp add: empty_heap_def)
  from to_serving_input_shared_dict [OF i t f, of "''predict''" empty_heap]
  have 1: "map fst (yielded ?run) = [0, 0]"
    and 2: "\<forall>y \<in> set (yielded ?run). dicts (heap_after ?run) (fst y) =
        [(''input_ids'', [5, 1, 5, 5, 5, 5, 5, 5]), (''input_mask'', [1, 1, 1, 0, 0, 0, 0, 0]),
         (''segment_ids'', [0, 0, 0, 0, 0, 0, 0, 0])]"
    by (simp_all add: l feature_dict_of_def eval_nat_numeral)
  from 1 have "yielded ?run \<noteq> []" by auto
  then obtain y where y: "y \<in> set (yielded ?run)" by (cases "yielded ?run") auto
  with 1 have "fst y = 0"
    by (metis (no_types, lifting) image_eqI list.set_map empty_iff insert_iff
        list.simps(15) empty_set)
  with 2 y have 3: "dicts (heap_after ?run) 0 =
      [(''input_ids'', [5, 1, 5, 5, 5, 5, 5, 5]), (''input_mask'', [1, 1, 1, 0, 0, 0, 0, 0]),
       (''segment_ids'', [0, 0, 0, 0, 0, 0, 0, 0])]"
    by metis
  have 4: "map snd (yielded ?run) =
      [feature_dict_of ([5, 1, 1, 5, 5, 5, 5, 5], [1, 1, 1, 1, 0, 0, 0, 0],
         [0, 0, 0, 0, 0, 0, 0, 0]),
       feature_dict_of ([5, 1, 5, 5, 5, 5, 5, 5], [1, 1, 1, 0, 0, 0, 0, 0],
         [0, 0, 0, 0, 0, 0, 0, 0])]"
    unfolding to_serving_input_run [OF i t f] by (simp add: comp_def)
  from 1 3 4 show ?thesis by (simp add: feature_dict_of_def)
qed

subsection \<open>C7\<close>









text \<open>
  Records that do not fit the declared shape make the iteration raise: here the second
  record is longer than the dimension declared from the first.
\<close>

lemma batch_groups_ragged:
  "batch_groups
     (PaddedBatch 2 [(''input_ids'', [Some 2])]
       (FromGenerator [[(''input_ids'', [1, 1])], [(''input_ids'', [1, 1, 1])]]
         [(''input_ids'', ''int32'')] [(''input_ids'', [Some 2])])) =
     Inl (Raised ''InvalidArgumentError'')"
  by (simp add: signature_ok_def record_signature_def)



subsection \<open>C8\<close>

lemma record_writer_keeps:
  "record_writer encode tasks st = Inr st' \<Longrightarrow> records_valid st t \<Longrightarrow>
     records_valid st' t"
proof (induction tasks arbitrary: st)
  case Nil
  then show ?case by simp
next
  case (Cons task tasks)
  show ?case
  proof (cases "records_valid st task")
    case True
    with Cons show ?thesis by simp
  next
    case False
    with Cons.prems(1) obtain examples where
      w: "record_writer encode tasks
            (st(task \<mapsto> \<lparr>file_valid = True, file_examples = examples\<rparr>)) = Inr st'"
      by (auto simp: and_then_eq_Inr)
    have "records_valid (st(task \<mapsto> \<lparr>file_valid = True, file_examples = examples\<rparr>)) t"
      using Cons.prems(2) by (simp add: records_valid_def)
    from Cons.IH [OF w this] show ?thesis .
  qed
qed

lemma record_writer_writes:
  "record_writer encode tasks st = Inr st' \<Longrightarrow> t \<in> set tasks \<Longrightarrow> records_valid st' t"
proof (induction tasks arbitrary: st)
  case Nil
  then show ?case by simp
next
  case (Cons task tasks)
  show ?case
  proof (cases "records_valid st task")
    case True
    with Cons.prems have w: "record_writer encode tasks st = Inr st'"
      by simp
    show ?thesis
    proof (cases "t = task")
      case True
      with \<open>records_valid st task\<close> record_writer_keeps [OF w] show ?thesis by simp
    next
      case False
      with Cons.prems(2) have "t \<in> set tasks" by simp
      from Cons.IH [OF w this] show ?thesis .
    qed
  next
    case False
    with Cons.prems(1) obtain examples where
      w: "record_writer encode tasks
            (st(task \<mapsto> \<lparr>file_valid = True, file_examples = examples\<rparr>)) = Inr st'"
      by (auto simp: and_then_eq_Inr)
    show ?thesis
    proof (cases "t = task")
      case True
      have "records_valid (st(task \<mapsto> \<lparr>file_valid = True, file_examples = examples\<rparr>)) t"
        using True by (simp add: records_valid_def)
      from record_writer_keeps [OF w this] show ?thesis .
    next
      case False
      with Cons.prems(2) have "t \<in> set tasks" by simp
      from Cons.IH [OF w this] show ?thesis .
    qed
  qed
qed

lemma record_writer_noop:
  "(\<And>t. t \<in> set tasks \<Longrightarrow> records_valid st t) \<Longrightarrow> record_writer encode tasks st = Inr st"
  by (induction tasks) simp_all

lemma record_reader_valid:
  "(\<And>t. t \<in> set tasks \<Longrightarrow> records_valid st t) \<Longrightarrow>
     record_reader tasks mode st = Inr (map (\<lambda>t. (t, RecordDataset t mode)) tasks)"
  by (induction tasks) (simp_all add: and_then_Inr)

text \<open>
  C8: with the record writer and reader as the spec has them, after a call of
  \<open>train_eval_input_fn\<close> that returned, the writer is a no-op on the records it left,
  a second call with the same configuration and mode returns the same result and
  leaves the records as they are, and in any other mode the reader returns as well, so
  that the call returns whenever the dataset library refuses none of the calls of that
  mode.
\<close>

theorem train_eval_input_fn_twice:
  assumes "train_eval_input_fn tf (spec_io encode tasks) params mode st = Inr (st1, ds)"
  shows "write_tfrecord (spec_io encode tasks) params st1 = Inr st1 \<and>
    train_eval_input_fn tf (spec_io encode tasks) params mode st1 = Inr (st1, ds) \<and>
    (\<exists>dataset_dict.
       read_tfrecord (spec_io encode tasks) params mode' st1 = Inr dataset_dict \<and>
       (accepted tf (train_eval_pipeline params mode' dataset_dict) \<longrightarrow>
          train_eval_input_fn tf (spec_io encode tasks) params mode' st1 =
            Inr (st1, train_eval_pipeline params mode' dataset_dict)))"
proof -
  from assms obtain dataset_dict where
    w: "write_tfrecord (spec_io encode tasks) params st = Inr st1"
    and r: "read_tfrecord (spec_io encode tasks) params mode st1 = Inr dataset_dict"
    and ds: "ds = train_eval_pipeline params mode dataset_dict"
    and a: "accepted tf (train_eval_pipeline params mode dataset_dict)"
    unfolding train_eval_input_fn_Inr by blast
  from w have w0: "record_writer encode tasks st = Inr st1"
    by (simp add: spec_io_def)
  have valid: "records_valid st1 t" if "t \<in> set tasks" for t
    using record_writer_writes [OF w0 that] .
  have w1: "write_tfrecord (spec_io encode tasks) params st1 = Inr st1"
    using record_writer_noop [of tasks st1 encode] valid by (simp add: spec_io_def)
  have r1: "read_tfrecord (spec_io encode tasks) params m st1 =
      Inr (map (\<lambda>t. (t, RecordDataset t m)) (remdups tasks))" for m
    using record_reader_valid [of "remdups tasks" st1 m] valid by (simp add: spec_io_def)
  have same: "train_eval_input_fn tf (spec_io encode tasks) params mode st1 = Inr (st1, ds)"
    using train_eval_input_fn_returns [OF w1 r a] ds by simp
  have other: "train_eval_input_fn tf (spec_io encode tasks) params mode' st1 =
      Inr (st1, train_eval_pipeline params mode'
             (map (\<lambda>t. (t, RecordDataset t mode')) (remdups tasks)))"
    if "accepted tf (train_eval_pipeline params mode'
          (map (\<lambda>t. (t, RecordDataset t mode')) (remdups tasks)))"
    using train_eval_input_fn_returns [OF w1 r1 [of mode'] that] .
  from w1 same r1 [of mode'] other show ?thesis by blast
qed

theorem train_eval_input_fn_twice_witness:
  "\<exists>st1 ds.
     train_eval_input_fn tf_checks
       (spec_io (\<lambda>task. Inr [[(''input_ids'', [101, 102])]]) [''ner''])
       base_params ''train'' (\<lambda>task. None) = Inr (st1, ds) \<and>
     records_valid st1 ''ner'' \<and>
     train_eval_input_fn tf_checks
       (spec_io (\<lambda>task. Inr [[(''input_ids'', [101, 102])]]) [''ner''])
       base_params ''train'' st1 = Inr (st1, ds) \<and>
     (\<exists>ds'. train_eval_input_fn tf_checks
        (spec_io (\<lambda>task. Inr [[(''input_ids'', [101, 102])]]) [''ner''])
        base_params ''eval'' st1 = Inr (st1, ds'))"
proof -
  let ?io = "spec_io (\<lambda>task. Inr [[(''input_ids'', [101, 102])]]) [''ner'']"
  let ?st1 = "(\<lambda>task. None)(''ner'' \<mapsto>
      \<lparr>file_valid = True, file_examples = [[(''input_ids'', [101, 102])]]\<rparr>)"
  have w: "write_tfrecord ?io base_params (\<lambda>task. None) = Inr ?st1"
    by (simp add: spec_io_def records_valid_def and_then_Inr)
  have v: "records_valid ?st1 ''ner''"
    by (simp add: records_valid_def)
  have r: "read_tfrecord ?io base_params ''train'' ?st1 =
      Inr [(''ner'', RecordDataset ''ner'' ''train'')]"
    using v by (simp add: spec_io_def and_then_Inr)
  have a: "accepted tf_checks
      (train_eval_pipeline base_params ''train'' [(''ner'', RecordDataset ''ner'' ''train'')])"
    by (simp add: train_eval_pipeline_def base_params_def AUTOTUNE_def fits_int64_def)
  from train_eval_input_fn_returns [OF w r a] obtain ds where
    first: "train_eval_input_fn tf_checks ?io base_params ''train'' (\<lambda>task. None) =
      Inr (?st1, ds)"
    by blast
  have a': "accepted tf_checks (train_eval_pipeline base_params ''eval'' dd)"
    if "dd \<noteq> []" for dd
    using that
    by (simp add: train_eval_pipeline_def base_params_def AUTOTUNE_def fits_int64_def)
  have r': "read_tfrecord ?io base_params ''eval'' ?st1 =
      Inr [(''ner'', RecordDataset ''ner'' ''eval'')]"
    using v by (simp add: spec_io_def and_then_Inr)
  from train_eval_input_fn_twice [OF first, of "''eval''"] r' a'
  have "\<exists>ds'. train_eval_input_fn tf_checks ?io base_params ''eval'' ?st1 = Inr (?st1, ds')"
    by auto
  with train_eval_input_fn_twice [OF first, of "''eval''"] first v
  show ?thesis by blast
qed

end
